theory Spec2Isabelle
  imports Complex_Main
begin

section \<open>Numbers and values of the front end\<close>

text \<open>
  The front end is TypeScript. A \<^verbatim>\<open>number\<close> that carries money, a quantity or a
  percentage is modelled as a rational (\<^typ>\<open>rat\<close>): exact arithmetic, no rounding
  of IEEE doubles and no NaN. Every such number reaches the handlers below either
  from a typed field of a server record or as \<^verbatim>\<open>Number(e.target.value)\<close> of an
  \<^verbatim>\<open>input type="number"\<close>, whose value is the empty string (hence 0) when it is not
  a number. Identifiers are integers.

  \<^verbatim>\<open>x || d\<close> on numbers yields \<^verbatim>\<open>d\<close> when \<^verbatim>\<open>x\<close> is falsy, which without NaN
  means \<^verbatim>\<open>x === 0\<close>.
\<close>

definition js_or :: "rat \<Rightarrow> rat \<Rightarrow> rat" where
  "js_or x d = (if x = 0 then d else x)"

text \<open>
  \<^verbatim>\<open>Array.prototype.findIndex\<close>: the index of the first element that satisfies the
  predicate, \<open>-1\<close> when there is none.
\<close>

fun findIndex :: "('a \<Rightarrow> bool) \<Rightarrow> 'a list \<Rightarrow> int" where
  "findIndex P [] = - 1"
| "findIndex P (x # xs) =
     (if P x then 0
      else (let r = findIndex P xs in if r < 0 then - 1 else r + 1))"

section \<open>The quote builder (frontend/src/pages/Quotes.tsx)\<close>

text \<open>
  The interfaces \<^verbatim>\<open>Product\<close>, \<^verbatim>\<open>QuoteLine\<close> and \<^verbatim>\<open>Quote\<close>. Field names that
  occur in more than one interface carry a prefix here (\<open>p_\<close> for a product,
  \<open>quote_\<close> for a quote); an optional field is an \<open>option\<close>.
\<close>

record Product =
  p_id :: int
  p_name :: string
  p_description :: "string option"
  p_unit_price :: rat
  p_category_name :: "string option"
  stock_quantity :: rat

record QuoteLine =
  product_id :: int
  product_name :: "string option"
  quantity :: rat
  unit_price :: rat
  discount :: rat
  subtotal :: rat

record Quote =
  quote_id :: int
  quote_number :: string
  quote_customer_id :: int
  quote_status :: string
  quote_subtotal :: rat
  quote_tax_amount :: rat
  quote_total_amount :: rat
  quote_lines :: "QuoteLine list"

text \<open>The form of the dialog (\<^verbatim>\<open>formData\<close>); dates are the strings of the date inputs.\<close>

record quote_form =
  customer_id :: int
  quote_date :: string
  valid_until :: string
  form_notes :: string
  terms_conditions :: string

text \<open>
  The state of the \<^verbatim>\<open>Quotes\<close> component: one field for each \<^verbatim>\<open>useState\<close> that
  the handlers below read or write. The customer list of the page is kept as the list
  of customer identifiers.
\<close>

record quotes_page =
  quotes :: "Quote list"
  q_customers :: "int list"
  products :: "Product list"
  q_loading :: bool
  q_error :: string
  q_dialogOpen :: bool
  editingQuote :: "Quote option"
  q_formData :: quote_form
  quoteLines :: "QuoteLine list"
  selectedProduct :: "Product option"
  productQuantity :: rat
  productDiscount :: rat

subsection \<open>Adding, removing and editing lines\<close>

text \<open>
  \<^verbatim>\<open>handleAddProduct\<close>. With no product selected it returns at once. When a line
  of the selected product exists (the first one, by \<^verbatim>\<open>findIndex\<close>) that line's
  quantity grows by the entered quantity, its discount becomes the entered discount
  and its subtotal is recomputed; otherwise a new line is appended. In both cases the
  three inputs are reset. The existing line is assigned to in place, in a copy of the
  array that shares its line objects; the model returns the list the new state holds.
  \<open>existingLineIndex\<close> is below the length of the list whenever it is not negative,
  so the read \<open>!\<close> is in range.
\<close>

definition newLine :: "Product \<Rightarrow> rat \<Rightarrow> rat \<Rightarrow> QuoteLine" where
  "newLine p qty disc =
     \<lparr> product_id = p_id p,
       product_name = Some (p_name p),
       quantity = js_or qty 1,
       unit_price = js_or (p_unit_price p) 0,
       discount = js_or disc 0,
       subtotal = js_or qty 1 * js_or (p_unit_price p) 0 * (1 - js_or disc 0 / 100) \<rparr>"

definition updateExisting :: "QuoteLine \<Rightarrow> rat \<Rightarrow> rat \<Rightarrow> QuoteLine" where
  "updateExisting l qty disc =
     (let l1 = l\<lparr>quantity := quantity l + qty\<rparr>;
          l2 = l1\<lparr>discount := disc\<rparr>
      in l2\<lparr>subtotal :=
           js_or (quantity l2) 0 * js_or (unit_price l2) 0 * (1 - js_or disc 0 / 100)\<rparr>)"

definition handleAddProduct :: "quotes_page \<Rightarrow> quotes_page" where
  "handleAddProduct s =
     (case selectedProduct s of
        None \<Rightarrow> s
      | Some p \<Rightarrow>
          (let existingLineIndex =
                 findIndex (\<lambda>line. product_id line = p_id p) (quoteLines s);
               s1 = (if existingLineIndex \<ge> 0
                     then (let i = nat existingLineIndex
                           in s\<lparr>quoteLines :=
                                 (quoteLines s)
                                   [i := updateExisting (quoteLines s ! i)
                                           (productQuantity s) (productDiscount s)]\<rparr>)
                     else s\<lparr>quoteLines :=
                            quoteLines s
                              @ [newLine p (productQuantity s) (productDiscount s)]\<rparr>)
           in s1\<lparr>selectedProduct := None, productQuantity := 1, productDiscount := 0\<rparr>))"

definition handleRemoveProduct :: "int \<Rightarrow> quotes_page \<Rightarrow> quotes_page" where
  "handleRemoveProduct productId s =
     s\<lparr>quoteLines := filter (\<lambda>line. product_id line \<noteq> productId) (quoteLines s)\<rparr>"

text \<open>
  \<^verbatim>\<open>handleUpdateLine(index, field, value)\<close>. The pair of a field and its new value
  is a \<open>line_update\<close>: the key of \<^verbatim>\<open>QuoteLine\<close> together with a value of that
  field's declared type. The line is copied with the field replaced; the subtotal is
  recomputed when the field is the quantity, the unit price or the discount.

  The rendered table calls the handler with the index of an existing row. For an
  index beyond the list JavaScript would grow the array with holes and store an
  object that has the one field only, which is no \<^verbatim>\<open>QuoteLine[]\<close>; the model
  answers \<open>None\<close> there.
\<close>

datatype line_update =
    SetProductId int
  | SetProductName string
  | SetQuantity rat
  | SetUnitPrice rat
  | SetDiscount rat
  | SetSubtotal rat

fun setField :: "line_update \<Rightarrow> QuoteLine \<Rightarrow> QuoteLine" where
  "setField (SetProductId v) l = l\<lparr>product_id := v\<rparr>"
| "setField (SetProductName v) l = l\<lparr>product_name := Some v\<rparr>"
| "setField (SetQuantity v) l = l\<lparr>quantity := v\<rparr>"
| "setField (SetUnitPrice v) l = l\<lparr>unit_price := v\<rparr>"
| "setField (SetDiscount v) l = l\<lparr>discount := v\<rparr>"
| "setField (SetSubtotal v) l = l\<lparr>subtotal := v\<rparr>"

fun recalculates :: "line_update \<Rightarrow> bool" where
  "recalculates (SetQuantity v) = True"
| "recalculates (SetUnitPrice v) = True"
| "recalculates (SetDiscount v) = True"
| "recalculates u = False"

definition updateLine :: "line_update \<Rightarrow> QuoteLine \<Rightarrow> QuoteLine" where
  "updateLine u l =
     (let l1 = setField u l
      in if recalculates u
         then l1\<lparr>subtotal :=
                js_or (quantity l1) 0 * js_or (unit_price l1) 0
                  * (1 - js_or (discount l1) 0 / 100)\<rparr>
         else l1)"

definition handleUpdateLine :: "nat \<Rightarrow> line_update \<Rightarrow> quotes_page \<Rightarrow> quotes_page option" where
  "handleUpdateLine index u s =
     (if index < length (quoteLines s)
      then Some (s\<lparr>quoteLines := (quoteLines s)[index := updateLine u (quoteLines s ! index)]\<rparr>)
      else None)"

subsection \<open>Totals and saving\<close>

record totals =
  t_subtotal :: rat
  taxAmount :: rat
  t_total :: rat

text \<open>\<^verbatim>\<open>calculateTotals\<close>: a left-to-right \<^verbatim>\<open>reduce\<close> from 0, then 10% IVA.\<close>

definition calculateTotals :: "quotes_page \<Rightarrow> totals" where
  "calculateTotals s =
     (let sub = foldl (\<lambda>sum line. sum + js_or (subtotal line) 0) 0 (quoteLines s);
          tax = sub * (1 / 10);
          tot = sub + tax
      in \<lparr> t_subtotal = sub, taxAmount = tax, t_total = tot \<rparr>)"










subsection \<open>Events of the dialog, and the notions of the specification\<close>



text \<open>
  What a user does in the dialog: choose a product in the autocomplete, type into the
  quantity or discount input, press the add button, press a row's remove button, edit
  a cell of a row. \<open>step\<close> is the handler each of these runs, \<open>run\<close> a sequence of
  them; an edit of a row that does not exist is \<open>None\<close>.
\<close>

datatype quote_event =
    SelectProduct "Product option"
  | EnterQuantity rat
  | EnterDiscount rat
  | ClickAdd
  | ClickRemove int
  | EditLine nat line_update

fun step :: "quotes_page \<Rightarrow> quote_event \<Rightarrow> quotes_page option" where
  "step s (SelectProduct v) = Some (s\<lparr>selectedProduct := v\<rparr>)"
| "step s (EnterQuantity v) = Some (s\<lparr>productQuantity := v\<rparr>)"
| "step s (EnterDiscount v) = Some (s\<lparr>productDiscount := v\<rparr>)"
| "step s ClickAdd = Some (handleAddProduct s)"
| "step s (ClickRemove productId) = Some (handleRemoveProduct productId s)"
| "step s (EditLine index u) = handleUpdateLine index u s"

fun run :: "quotes_page \<Rightarrow> quote_event list \<Rightarrow> quotes_page option" where
  "run s [] = Some s"
| "run s (ev # evs) = (case step s ev of None \<Rightarrow> None | Some s' \<Rightarrow> run s' evs)"

fun is_edit :: "quote_event \<Rightarrow> bool" where
  "is_edit (EditLine i u) = True"
| "is_edit ev = False"


text \<open>
  States for the examples: the dialog just opened for a new quote, a catalog of two
  products, and the quote after one add.
\<close>

definition blank_page :: quotes_page where
  "blank_page =
     \<lparr> quotes = [], q_customers = [], products = [], q_loading = False, q_error = [],
       q_dialogOpen = True, editingQuote = None,
       q_formData = \<lparr> customer_id = 0, quote_date = [], valid_until = [],
                      form_notes = [], terms_conditions = [] \<rparr>,
       quoteLines = [], selectedProduct = None, productQuantity = 1,
       productDiscount = 0 \<rparr>"

definition product_a :: Product where
  "product_a = \<lparr> p_id = 1, p_name = ''A'', p_description = None, p_unit_price = 100000,
                  p_category_name = None, stock_quantity = 7 \<rparr>"

definition product_b :: Product where
  "product_b = \<lparr> p_id = 2, p_name = ''B'', p_description = None, p_unit_price = 1 / 8,
                  p_category_name = None, stock_quantity = 40 \<rparr>"

definition catalog_page :: quotes_page where
  "catalog_page = blank_page\<lparr>products := [product_a, product_b]\<rparr>"

definition three_of_a :: quotes_page where
  "three_of_a = handleAddProduct
     (catalog_page\<lparr>selectedProduct := Some product_a, productQuantity := 3,
                   productDiscount := 10\<rparr>)"


text \<open>Two sessions of the dialog, and the one-line quote with product A chosen again.\<close>

definition busy_session :: "quote_event list" where
  "busy_session =
     [SelectProduct (Some product_a), EnterQuantity 3, EnterDiscount 10, ClickAdd,
      SelectProduct (Some product_b), ClickAdd,
      EditLine 0 (SetQuantity 5),
      SelectProduct (Some product_a), EnterQuantity 2, ClickAdd,
      ClickRemove 2]"

definition add_remove_session :: "quote_event list" where
  "add_remove_session =
     [SelectProduct (Some product_a), EnterQuantity 3, EnterDiscount 10, ClickAdd,
      SelectProduct (Some product_b), ClickAdd, ClickRemove 2,
      SelectProduct (Some product_b), EnterQuantity 4, ClickAdd]"

definition again_a :: quotes_page where
  "again_a = three_of_a\<lparr>selectedProduct := Some product_a, productQuantity := 2,
                        productDiscount := 5\<rparr>"

section \<open>Dates and expiry (customer list and product list)\<close>

text \<open>
  An expiry date reaches the predicates as an optional string that they hand to
  \<^verbatim>\<open>new Date(...)\<close>. What matters of the string is whether it is absent or empty
  (\<open>NoDate\<close>, falsy), present but not a date (\<open>BadDate\<close>: \<^verbatim>\<open>getTime()\<close> is NaN, and
  every comparison with it is false), or a date (\<open>DateAt t\<close>, with \<open>t\<close> the instant in
  milliseconds since the epoch that \<^verbatim>\<open>getTime()\<close> returns). The current instant
  \<^verbatim>\<open>new Date()\<close> is the parameter \<open>now\<close>.

  \<^verbatim>\<open>setHours(0, 0, 0, 0)\<close> moves an instant to the midnight before it in local time.
  Local time is UTC plus \<open>tz\<close> milliseconds, the same offset for both instants of a
  comparison (no change of daylight saving between them).
\<close>

datatype date_string = NoDate | BadDate | DateAt int

definition MS_PER_DAY :: int where
  "MS_PER_DAY = 1000 * 60 * 60 * 24"

definition setHours0 :: "int \<Rightarrow> int \<Rightarrow> int" where
  "setHours0 tz t = ((t + tz) div MS_PER_DAY) * MS_PER_DAY - tz"

text \<open>\<^verbatim>\<open>Math.ceil(ms / (1000 * 60 * 60 * 24))\<close>.\<close>

definition ceil_days :: "int \<Rightarrow> int" where
  "ceil_days ms = \<lceil>(of_int ms :: rat) / of_int MS_PER_DAY\<rceil>"

text \<open>The customer list (unnamed/part_000): both instants are moved to midnight.\<close>

definition isRegimeExpiringSoon :: "int \<Rightarrow> int \<Rightarrow> date_string \<Rightarrow> bool" where
  "isRegimeExpiringSoon tz now expiryDate =
     (case expiryDate of
        NoDate \<Rightarrow> False
      | BadDate \<Rightarrow> False
      | DateAt t \<Rightarrow>
          (let today = setHours0 tz now;
               expiry = setHours0 tz t;
               daysUntilExpiry = ceil_days (expiry - today)
           in daysUntilExpiry \<le> 5 \<and> daysUntilExpiry \<ge> 0))"

definition isRegimeExpired :: "int \<Rightarrow> int \<Rightarrow> date_string \<Rightarrow> bool" where
  "isRegimeExpired tz now expiryDate =
     (case expiryDate of
        NoDate \<Rightarrow> False
      | BadDate \<Rightarrow> False
      | DateAt t \<Rightarrow>
          (let today = setHours0 tz now;
               expiry = setHours0 tz t
           in expiry < today))"

text \<open>The product list (unnamed/part_001): the instants are compared as they are.\<close>

definition isExpiringSoon :: "int \<Rightarrow> date_string \<Rightarrow> bool" where
  "isExpiringSoon now expiryDate =
     (case expiryDate of
        NoDate \<Rightarrow> False
      | BadDate \<Rightarrow> False
      | DateAt expiry \<Rightarrow>
          (let daysUntilExpiry = ceil_days (expiry - now)
           in daysUntilExpiry \<le> 30 \<and> daysUntilExpiry \<ge> 0))"


text \<open>
  The calendar day of an instant in local time, as a day number: the notion behind
  "the expiry date", "today" and "the number of days from today until expiry".
\<close>

definition local_day :: "int \<Rightarrow> int \<Rightarrow> int" where
  "local_day tz t = (t + tz) div MS_PER_DAY"

section \<open>The customer registry (unnamed/part_000)\<close>

text \<open>
  A browser \<^verbatim>\<open>File\<close>: its name, MIME type and size in bytes. The fields of the
  customer form (\<^verbatim>\<open>formData\<close>); the expiry string is a \<open>date_string\<close>. A
  \<^verbatim>\<open>Customer\<close> of the list is an identifier, the fields the form edits, and the
  name of the stored PDF.
\<close>

record File =
  file_name :: string
  file_type :: string
  file_size :: nat

record customer_form =
  company_name :: string
  contact_name :: string
  email :: string
  phone :: string
  address :: string
  city :: string
  country :: string
  tax_id :: string
  credit_limit :: rat
  payment_terms :: rat
  is_active :: bool
  tourism_regime :: bool
  tourism_regime_expiry :: date_string
  customer_notes :: string

record Customer =
  cust_id :: int
  cust_fields :: customer_form
  tourism_regime_pdf :: "string option"

text \<open>The state of the \<^verbatim>\<open>Customers\<close> component, one field for each \<^verbatim>\<open>useState\<close>.\<close>

record customers_page =
  customers :: "Customer list"
  c_loading :: bool
  c_error :: string
  c_dialogOpen :: bool
  editingCustomer :: "Customer option"
  selectedFile :: "File option"
  fileError :: string
  submitting :: bool
  emailError :: string
  rucError :: string
  formData :: customer_form

text \<open>
  \<^verbatim>\<open>handleFileSelect\<close>: the argument is \<^verbatim>\<open>event.target.files?.[0]\<close>, \<open>None\<close> when
  the picker was closed without a file. Messages are written without accents.
\<close>

definition handleFileSelect :: "File option \<Rightarrow> customers_page \<Rightarrow> customers_page" where
  "handleFileSelect picked s =
     (case picked of
        None \<Rightarrow> s
      | Some file \<Rightarrow>
          if file_type file \<noteq> ''application/pdf''
          then s\<lparr>fileError := ''Solo se permiten archivos PDF''\<rparr>
          else if file_size file > 10 * 1024 * 1024
          then s\<lparr>fileError := ''El archivo es demasiado grande. Maximo permitido: 10MB''\<rparr>
          else s\<lparr>selectedFile := Some file, fileError := ''''\<rparr>)"

text \<open>
  The requests of the page and the answers of the server: the saved customer
  (\<open>None\<close> when the save request fails, \<open>Some None\<close> when it succeeds with no
  body), whether the upload succeeds, and the customer list (\<open>None\<close> on failure).
\<close>

datatype customers_call =
    ListCustomers
  | UpdateCustomer int customer_form
  | CreateCustomer customer_form
  | UploadTourismPdf int File

record customers_server =
  save_reply :: "Customer option option"
  upload_ok :: bool
  list_reply :: "Customer list option"

definition loadCustomers :: "customers_server \<Rightarrow> customers_page \<Rightarrow> customers_page" where
  "loadCustomers srv s =
     (case list_reply srv of
        Some data \<Rightarrow> s\<lparr>customers := data, c_loading := False\<rparr>
      | None \<Rightarrow> s\<lparr>c_error := ''Error al cargar clientes'', c_loading := False\<rparr>)"

definition closeCustomerDialog :: "customers_page \<Rightarrow> customers_page" where
  "closeCustomerDialog s =
     s\<lparr>c_dialogOpen := False, editingCustomer := None, selectedFile := None,
       fileError := '''', emailError := '''', rucError := '''', submitting := False\<rparr>"

text \<open>
  The test \<^verbatim>\<open>expiryDate <= today\<close> of \<^verbatim>\<open>handleSubmit\<close>: \<^verbatim>\<open>today\<close> is the current
  instant moved to local midnight, the expiry is the parsed string as it is; a string
  that is no date compares false.
\<close>

definition expiry_not_future :: "int \<Rightarrow> int \<Rightarrow> date_string \<Rightarrow> bool" where
  "expiry_not_future tz now expiry =
     (case expiry of
        DateAt expiryDate \<Rightarrow> (let today = setHours0 tz now in expiryDate \<le> today)
      | _ \<Rightarrow> False)"

text \<open>
  The upload step of \<^verbatim>\<open>handleSubmit\<close>, after a successful save: with a selected
  file, the regime on and a saved customer, the file is uploaded for the customer
  being edited, else for the saved one; a failed upload only sets the banner.
\<close>

definition uploadStep ::
  "customers_server \<Rightarrow> customers_page \<Rightarrow> Customer option \<Rightarrow> customers_page
     \<Rightarrow> customers_page \<times> customers_call list" where
  "uploadStep srv s customer s0 =
     (case (selectedFile s, customer) of
        (Some file, Some c) \<Rightarrow>
          if tourism_regime (formData s)
          then (let customerId = (case editingCustomer s of
                                    Some e \<Rightarrow> cust_id e
                                  | None \<Rightarrow> cust_id c)
                in (if upload_ok srv then s0
                    else s0\<lparr>c_error :=
                      ''Cliente guardado, pero error al subir archivo. Puede subirlo despues editando el cliente.''\<rparr>,
                    [UploadTourismPdf customerId file]))
          else (s0, [])
      | _ \<Rightarrow> (s0, []))"

text \<open>
  \<^verbatim>\<open>handleSubmit\<close> of the customer form, here \<open>submitCustomer\<close> (the quote
  builder has a \<^verbatim>\<open>handleSubmit\<close> too; likewise \<open>closeCustomerDialog\<close> is this
  component's \<^verbatim>\<open>handleCloseDialog\<close>). The two validations of the tourism regime
  return before any request; \<^verbatim>\<open>finally\<close> resets \<^verbatim>\<open>submitting\<close> on every path.
  The result is the new state and the requests issued, in order.
\<close>

definition submitCustomer ::
  "int \<Rightarrow> int \<Rightarrow> customers_server \<Rightarrow> customers_page \<Rightarrow> customers_page \<times> customers_call list" where
  "submitCustomer tz now srv s =
     (let s0 = s\<lparr>submitting := True, c_error := ''''\<rparr>
      in if tourism_regime (formData s) \<and> tourism_regime_expiry (formData s) = NoDate
         then (s0\<lparr>c_error :=
                  ''Debe proporcionar la fecha de vencimiento del regimen de turismo'',
                  submitting := False\<rparr>, [])
         else if tourism_regime (formData s)
                 \<and> expiry_not_future tz now (tourism_regime_expiry (formData s))
         then (s0\<lparr>c_error :=
                  ''La fecha de vencimiento del regimen de turismo debe ser futura'',
                  submitting := False\<rparr>, [])
         else (let save = (case editingCustomer s of
                             Some e \<Rightarrow> UpdateCustomer (cust_id e) (formData s)
                           | None \<Rightarrow> CreateCustomer (formData s))
               in case save_reply srv of
                    None \<Rightarrow>
                      (s0\<lparr>c_error := ''Error al guardar cliente'', submitting := False\<rparr>,
                       [save])
                  | Some customer \<Rightarrow>
                      (let up = uploadStep srv s customer s0
                       in ((closeCustomerDialog (loadCustomers srv (fst up)))
                             \<lparr>submitting := False\<rparr>,
                           save # snd up @ [ListCustomers]))))"

text \<open>The \<^verbatim>\<open>disabled\<close> condition of the submit button.\<close>

definition submitDisabled :: "customers_page \<Rightarrow> bool" where
  "submitDisabled s =
     (submitting s \<or> company_name (formData s) = ''''
      \<or> (tourism_regime (formData s) \<and> tourism_regime_expiry (formData s) = NoDate)
      \<or> (tourism_regime (formData s) \<and> selectedFile s \<noteq> None \<and> fileError s \<noteq> ''''))"

text \<open>
  The rule of the specification for a document (PDF only, at most 10 MB), and the
  state in which the selected file, if there is one, obeys it.
\<close>

definition acceptable :: "File \<Rightarrow> bool" where
  "acceptable f = (file_type f = ''application/pdf'' \<and> file_size f \<le> 10 * 1024 * 1024)"

definition selection_valid :: "customers_page \<Rightarrow> bool" where
  "selection_valid s = (case selectedFile s of None \<Rightarrow> True | Some f \<Rightarrow> acceptable f)"

text \<open>States for the examples: the dialog opened for a new customer, and two files.\<close>

definition new_customer_page :: customers_page where
  "new_customer_page =
     \<lparr> customers = [], c_loading = False, c_error = '''', c_dialogOpen = True,
       editingCustomer = None, selectedFile = None, fileError = '''', submitting = False,
       emailError = '''', rucError = '''',
       formData = \<lparr> company_name = ''Hotel Guarani'', contact_name = '''', email = '''',
                    phone = '''', address = '''', city = '''', country = ''Paraguay'',
                    tax_id = '''', credit_limit = 0, payment_terms = 30, is_active = True,
                    tourism_regime = True, tourism_regime_expiry = NoDate,
                    customer_notes = '''' \<rparr> \<rparr>"

definition good_pdf :: File where
  "good_pdf = \<lparr> file_name = ''regimen.pdf'', file_type = ''application/pdf'',
                 file_size = 10485760 \<rparr>"

definition big_pdf :: File where
  "big_pdf = \<lparr> file_name = ''escaneo.pdf'', file_type = ''application/pdf'',
                file_size = 10485761 \<rparr>"

definition saving_server :: customers_server where
  "saving_server =
     \<lparr> save_reply = Some (Some \<lparr> cust_id = 7, cust_fields = formData new_customer_page,
                                 tourism_regime_pdf = None \<rparr>),
       upload_ok = True, list_reply = Some [] \<rparr>"

definition dated_page :: customers_page where
  "dated_page =
     new_customer_page\<lparr>formData :=
       (formData new_customer_page)\<lparr>tourism_regime_expiry := DateAt (20200 * MS_PER_DAY)\<rparr>\<rparr>"


section \<open>The HTTP client (frontend/src/services/api.ts)\<close>

text \<open>
  What the response interceptor can touch: the \<^verbatim>\<open>token\<close> field of the service
  (\<open>None\<close> for \<^verbatim>\<open>null\<close>), the browser's \<^verbatim>\<open>localStorage\<close> and
  \<^verbatim>\<open>window.location.href\<close>. An error of the client carries a response unless the
  request never got one (\<^verbatim>\<open>error.response\<close> undefined, a network failure).
\<close>

record api_state =
  token :: "string option"
  localStorage :: "string \<Rightarrow> string option"
  location_href :: string

record http_response =
  http_status :: int
  http_data :: string

record axios_error =
  err_message :: string
  err_response :: "http_response option"

datatype 'a promise = Resolved 'a | Rejected axios_error

definition setToken :: "string option \<Rightarrow> api_state \<Rightarrow> api_state" where
  "setToken tok s = s\<lparr>token := tok\<rparr>"

text \<open>
  The two handlers given to \<^verbatim>\<open>interceptors.response.use\<close>: a response is passed
  on; an error with status 401 logs the user out and sends the browser to the login
  page, and every error is rejected again.
\<close>

definition onResponse :: "http_response \<Rightarrow> api_state \<Rightarrow> api_state \<times> http_response promise" where
  "onResponse response s = (s, Resolved response)"

definition onResponseError :: "axios_error \<Rightarrow> api_state \<Rightarrow> api_state \<times> http_response promise" where
  "onResponseError error s =
     (let s' = (if map_option http_status (err_response error) = Some 401
                then (setToken None s)
                       \<lparr>localStorage := (localStorage s)(''token'' := None),
                        location_href := ''/login''\<rparr>
                else s)
      in (s', Rejected error))"

text \<open>A logged-in session, and three errors: unauthorised, server error, no response.\<close>

definition logged_in :: api_state where
  "logged_in =
     \<lparr> token = Some ''abc'',
       localStorage = (\<lambda>k. None)(''token'' := Some ''abc'', ''theme'' := Some ''dark''),
       location_href = ''/quotes'' \<rparr>"

definition error_401 :: axios_error where
  "error_401 = \<lparr> err_message = ''Request failed with status code 401'',
                  err_response = Some \<lparr> http_status = 401, http_data = '''' \<rparr> \<rparr>"

definition error_500 :: axios_error where
  "error_500 = \<lparr> err_message = ''Request failed with status code 500'',
                  err_response = Some \<lparr> http_status = 500, http_data = '''' \<rparr> \<rparr>"

definition network_error :: axios_error where
  "network_error = \<lparr> err_message = ''Network Error'', err_response = None \<rparr>"

section \<open>The deposit ledger (Deposits, in frontend/src/pages/Quotes.tsx)\<close>

text \<open>
  The \<^verbatim>\<open>Deposit\<close> interface, and the dialog for applying or refunding a deposit:
  the chosen deposit, the kind of action, and the form \<^verbatim>\<open>actionData\<close>.
\<close>

record Deposit =
  dep_id :: int
  deposit_number :: string
  dep_customer_id :: int
  deposit_type :: string
  amount :: rat
  currency :: string
  available_amount :: rat
  dep_status :: string

datatype action_type = ApplyAction | RefundAction

record action_data =
  ad_amount :: rat
  ad_invoice_id :: int
  ad_reason :: string

record action_dialog =
  selectedDeposit :: "Deposit option"
  actionType :: action_type
  actionData :: action_data

definition handleOpenActionDialog :: "Deposit \<Rightarrow> action_type \<Rightarrow> action_dialog" where
  "handleOpenActionDialog deposit action =
     \<lparr> selectedDeposit = Some deposit,
       actionType = action,
       actionData = \<lparr> ad_amount = (if action = ApplyAction then available_amount deposit else 0),
                      ad_invoice_id = 0,
                      ad_reason = '''' \<rparr> \<rparr>"

text \<open>
  The requests \<^verbatim>\<open>handleApplyDeposit\<close> and \<^verbatim>\<open>handleRefundDeposit\<close> send: none
  without a chosen deposit, else the amount of the form as it is. The amount input
  declares \<^verbatim>\<open>min: 0\<close> and \<^verbatim>\<open>max: available_amount\<close>, and its \<^verbatim>\<open>onChange\<close> stores
  whatever number is typed; the button is disabled by \<open>actionDisabled\<close> only.
\<close>

datatype deposits_call =
    ApplyDepositToInvoice int int rat
  | RefundDeposit int rat string

definition handleApplyDeposit :: "action_dialog \<Rightarrow> deposits_call option" where
  "handleApplyDeposit dlg =
     (case selectedDeposit dlg of
        None \<Rightarrow> None
      | Some d \<Rightarrow>
          Some (ApplyDepositToInvoice (dep_id d) (ad_invoice_id (actionData dlg))
                  (ad_amount (actionData dlg))))"

definition handleRefundDeposit :: "action_dialog \<Rightarrow> deposits_call option" where
  "handleRefundDeposit dlg =
     (case selectedDeposit dlg of
        None \<Rightarrow> None
      | Some d \<Rightarrow>
          Some (RefundDeposit (dep_id d) (ad_amount (actionData dlg))
                  (ad_reason (actionData dlg))))"

definition actionDisabled :: "action_dialog \<Rightarrow> bool" where
  "actionDisabled dlg =
     (ad_amount (actionData dlg) = 0
      \<or> (actionType dlg = ApplyAction \<and> ad_invoice_id (actionData dlg) = 0)
      \<or> (actionType dlg = RefundAction \<and> ad_reason (actionData dlg) = ''''))"

text \<open>
  Modelled from the spec: the invoice of the data model (section 3), as far as the
  deposit ledger touches it; no invoice type is declared in the sources.
\<close>

record Invoice =
  inv_id :: int
  inv_total_amount :: rat
  paid_amount :: rat

text \<open>
  Modelled from the spec: the server's handler of
  \<^verbatim>\<open>POST /deposits/{id}/apply-to-invoice\<close>, which is not among the sources. By
  section 4.2 its precondition is \<open>amount \<le> deposit.available_amount\<close>, enforced by
  the server, and its effect \<open>invoice.paid_amount += amount\<close>,
  \<open>deposit.available_amount -= amount\<close>, with the status APPLIED once nothing is left.
  A request that fails the precondition is refused (\<open>None\<close>).
\<close>

definition apply_to_invoice :: "Deposit \<Rightarrow> Invoice \<Rightarrow> rat \<Rightarrow> (Deposit \<times> Invoice) option" where
  "apply_to_invoice d invoice a =
     (if a \<le> available_amount d
      then Some (d\<lparr>available_amount := available_amount d - a,
                   dep_status := (if available_amount d - a = 0 then ''APPLIED''
                                  else dep_status d)\<rparr>,
                 invoice\<lparr>paid_amount := paid_amount invoice + a\<rparr>)
      else None)"

text \<open>
  Modelled from the spec: the server's handler of \<^verbatim>\<open>POST /deposits/{id}/refund\<close>,
  which is not among the sources. By section 4.3 it takes an amount and a reason
  (required, not empty), its precondition is \<open>amount \<le> available_amount\<close>, and its
  effect \<open>available_amount -= amount\<close>, with the status REFUNDED once nothing is left.
\<close>

definition refund_deposit :: "Deposit \<Rightarrow> rat \<Rightarrow> string \<Rightarrow> Deposit option" where
  "refund_deposit d a reason =
     (if reason \<noteq> '''' \<and> a \<le> available_amount d
      then Some (d\<lparr>available_amount := available_amount d - a,
                   dep_status := (if available_amount d - a = 0 then ''REFUNDED''
                                  else dep_status d)\<rparr>)
      else None)"

text \<open>
  Modelled from the spec: a sequence of the two operations on one deposit, each on
  the deposit the previous one left; it ends at the first refused request.
\<close>

datatype ledger_op = ApplyOp Invoice rat | RefundOp rat string

fun op_amount :: "ledger_op \<Rightarrow> rat" where
  "op_amount (ApplyOp invoice a) = a"
| "op_amount (RefundOp a reason) = a"

fun ledger_step :: "Deposit \<Rightarrow> ledger_op \<Rightarrow> Deposit option" where
  "ledger_step d (ApplyOp invoice a) = map_option fst (apply_to_invoice d invoice a)"
| "ledger_step d (RefundOp a reason) = refund_deposit d a reason"

fun ledger_run :: "Deposit \<Rightarrow> ledger_op list \<Rightarrow> Deposit option" where
  "ledger_run d [] = Some d"
| "ledger_run d (x # xs) =
     (case ledger_step d x of None \<Rightarrow> None | Some d' \<Rightarrow> ledger_run d' xs)"

text \<open>The invariant of the data model: \<open>0 \<le> available_amount \<le> amount\<close>.\<close>

definition deposit_ok :: "Deposit \<Rightarrow> bool" where
  "deposit_ok d = (0 \<le> available_amount d \<and> available_amount d \<le> amount d)"

text \<open>A new deposit of 500000 guaranies, an invoice, and the refund dialog with -1 typed.\<close>

definition fresh_deposit :: Deposit where
  "fresh_deposit =
     \<lparr> dep_id = 1, deposit_number = ''DEP-0001'', dep_customer_id = 3,
       deposit_type = ''ANTICIPO'', amount = 500000, currency = ''PYG'',
       available_amount = 500000, dep_status = ''ACTIVE'' \<rparr>"

definition open_invoice :: Invoice where
  "open_invoice = \<lparr> inv_id = 9, inv_total_amount = 297000, paid_amount = 0 \<rparr>"

definition negative_refund :: action_dialog where
  "negative_refund =
     (handleOpenActionDialog fresh_deposit RefundAction)
       \<lparr>actionData := \<lparr> ad_amount = - 1, ad_invoice_id = 0, ad_reason = ''ajuste'' \<rparr>\<rparr>"

section \<open>Quote totals\<close>



text \<open>
  The example of the specification: one line of 3 units at 100000 with 10% discount
  gives subtotal 270000, tax 27000 and total 297000.
\<close>

lemma spec_example_totals:
  "calculateTotals
     (blank_page\<lparr>quoteLines :=
        [\<lparr> product_id = 1, product_name = Some ''A'', quantity = 3, unit_price = 100000,
           discount = 10, subtotal = 270000 \<rparr>]\<rparr>)
     = \<lparr> t_subtotal = 270000, taxAmount = 27000, t_total = 297000 \<rparr>"
  by (simp add: calculateTotals_def js_or_def Let_def)

section \<open>Quote lines\<close>

lemma js_or_zero: "js_or x 0 = x"
  by (simp add: js_or_def)


lemma findIndex_none: "findIndex P xs < 0 \<longleftrightarrow> (\<forall>x\<in>set xs. \<not> P x)"
  by (induction xs) (auto simp: Let_def)


lemma findIndex_first:
  "i < length xs \<Longrightarrow> P (xs ! i) \<Longrightarrow> \<forall>j<i. \<not> P (xs ! j) \<Longrightarrow> findIndex P xs = int i"
proof (induction xs arbitrary: i)
  case Nil
  then show ?case by simp
next
  case (Cons x xs)
  show ?case
  proof (cases i)
    case 0
    with Cons.prems show ?thesis by simp
  next
    case (Suc k)
    with Cons.prems have "\<not> P x" by auto
    moreover from Suc Cons.prems have "findIndex P xs = int k"
      by (intro Cons.IH) auto
    ultimately show ?thesis using Suc by (simp add: Let_def)
  qed
qed

lemma findIndex_distinct:
  assumes "distinct (map f xs)" "i < length xs" "f (xs ! i) = k"
  shows "findIndex (\<lambda>x. f x = k) xs = int i"
proof (rule findIndex_first)
  show "i < length xs" by fact
  show "f (xs ! i) = k" by fact
  show "\<forall>j<i. f (xs ! j) \<noteq> k"
  proof (intro allI impI)
    fix j assume "j < i"
    with assms have "j < length xs" "j \<noteq> i" by auto
    with assms show "f (xs ! j) \<noteq> k"
      by (metis distinct_conv_nth length_map nth_map)
  qed
qed

lemma map_update_same:
  assumes "f y = f (xs ! i)"
  shows "map f (xs[i := y]) = map f xs"
proof (cases "i < length xs")
  case True
  then have "(map f xs)[i := f (xs ! i)] = map f xs"
    by (metis list_update_id nth_map)
  with assms show ?thesis by (simp add: map_update)
next
  case False
  then have "length xs \<le> i" by arith
  then show ?thesis by (simp add: list_update_beyond)
qed

lemma updateExisting_id: "product_id (updateExisting l q d) = product_id l"
  by (simp add: updateExisting_def Let_def)




lemma handleAddProduct_lines_found:
  assumes "selectedProduct s = Some p"
    and "0 \<le> findIndex (\<lambda>line. product_id line = p_id p) (quoteLines s)"
  shows "quoteLines (handleAddProduct s) =
           (quoteLines s)[nat (findIndex (\<lambda>line. product_id line = p_id p) (quoteLines s)) :=
              updateExisting (quoteLines s ! nat (findIndex (\<lambda>line. product_id line = p_id p) (quoteLines s)))
                (productQuantity s) (productDiscount s)]"
  using assms by (simp add: handleAddProduct_def Let_def)

lemma handleAddProduct_lines_new:
  assumes "selectedProduct s = Some p"
    and "findIndex (\<lambda>line. product_id line = p_id p) (quoteLines s) < 0"
  shows "quoteLines (handleAddProduct s) =
           quoteLines s @ [newLine p (productQuantity s) (productDiscount s)]"
  using assms by (simp add: handleAddProduct_def Let_def)

lemma handleAddProduct_distinct:
  assumes "distinct (map product_id (quoteLines s))"
  shows "distinct (map product_id (quoteLines (handleAddProduct s)))"
proof (cases "selectedProduct s")
  case None
  with assms show ?thesis by (simp add: handleAddProduct_def)
next
  case (Some p)
  let ?k = "findIndex (\<lambda>line. product_id line = p_id p) (quoteLines s)"
  show ?thesis
  proof (cases "0 \<le> ?k")
    case True
    have "map product_id ((quoteLines s)[nat ?k := updateExisting (quoteLines s ! nat ?k)
            (productQuantity s) (productDiscount s)]) = map product_id (quoteLines s)"
      by (rule map_update_same) (simp add: updateExisting_id)
    with assms handleAddProduct_lines_found[OF Some True] show ?thesis by simp
  next
    case False
    then have neg: "?k < 0" by simp
    then have "\<forall>x\<in>set (quoteLines s). product_id x \<noteq> p_id p"
      by (simp add: findIndex_none)
    then have "p_id p \<notin> set (map product_id (quoteLines s))" by auto
    with assms handleAddProduct_lines_new[OF Some neg] show ?thesis
      by (simp add: newLine_def)
  qed
qed

lemma handleRemoveProduct_distinct:
  "distinct (map product_id (quoteLines s)) \<Longrightarrow>
   distinct (map product_id (quoteLines (handleRemoveProduct productId s)))"
  by (simp add: handleRemoveProduct_def distinct_map_filter)




lemma three_of_a_lines:
  "quoteLines three_of_a =
     [\<lparr> product_id = 1, product_name = Some ''A'', quantity = 3, unit_price = 100000,
        discount = 10, subtotal = 270000 \<rparr>]"
  by (simp add: three_of_a_def catalog_page_def blank_page_def product_a_def
      handleAddProduct_def newLine_def js_or_def Let_def)




section \<open>The catalog is not touched; one line per product\<close>

lemma step_products: "step s ev = Some s' \<Longrightarrow> products s' = products s"
  by (cases ev)
    (auto simp: handleAddProduct_def handleRemoveProduct_def handleUpdateLine_def Let_def
      split: option.splits if_splits)

lemma run_products: "run s evs = Some s' \<Longrightarrow> products s' = products s"
proof (induction evs arbitrary: s)
  case Nil
  then show ?case by simp
next
  case (Cons ev evs)
  then obtain s1 where st: "step s ev = Some s1" and rest: "run s1 evs = Some s'"
    by (auto split: option.splits)
  from Cons.IH[OF rest] step_products[OF st] show ?case by simp
qed

text \<open>
  C3. No operation on quote lines changes the product catalog: not adding a product
  (\<^verbatim>\<open>handleAddProduct\<close>), not removing a line (\<^verbatim>\<open>handleRemoveProduct\<close>), not
  editing one (\<^verbatim>\<open>handleUpdateLine\<close>), and so no sequence of events of the dialog;
  in particular every product's \<^verbatim>\<open>stock_quantity\<close> is what it was.
\<close>

theorem quote_lines_leave_products:
  "products (handleAddProduct s) = products s
   \<and> products (handleRemoveProduct productId s) = products s
   \<and> (handleUpdateLine index u s = Some s' \<longrightarrow> products s' = products s)
   \<and> (run t evs = Some t' \<longrightarrow>
        products t' = products t
        \<and> map stock_quantity (products t') = map stock_quantity (products t))"
proof -
  have "products (handleAddProduct s) = products s"
    using step_products[of s ClickAdd] by simp
  moreover have "products (handleRemoveProduct productId s) = products s"
    by (simp add: handleRemoveProduct_def)
  moreover have "handleUpdateLine index u s = Some s' \<longrightarrow> products s' = products s"
    using step_products[of s "EditLine index u" s'] by simp
  moreover have "run t evs = Some t' \<longrightarrow>
        products t' = products t
        \<and> map stock_quantity (products t') = map stock_quantity (products t)"
    using run_products[of t evs t'] by simp
  ultimately show ?thesis by blast
qed

lemma busy_session_lines:
  "map_option quoteLines (run catalog_page busy_session) =
     Some [\<lparr> product_id = 1, product_name = Some ''A'', quantity = 7, unit_price = 100000,
             discount = 0, subtotal = 700000 \<rparr>]"
  by (simp add: busy_session_def catalog_page_def blank_page_def product_a_def product_b_def
      handleAddProduct_def handleRemoveProduct_def handleUpdateLine_def updateLine_def
      updateExisting_def newLine_def js_or_def Let_def)

theorem quote_lines_leave_products_witness:
  "(\<exists>s'. handleUpdateLine 0 (SetQuantity 5) three_of_a = Some s'
          \<and> products s' = products three_of_a)
   \<and> (\<exists>t'. run catalog_page busy_session = Some t'
          \<and> products t' = [product_a, product_b]
          \<and> map stock_quantity (products t') = [7, 40])"
proof -
  obtain s' where upd: "handleUpdateLine 0 (SetQuantity 5) three_of_a = Some s'"
    by (simp add: handleUpdateLine_def three_of_a_lines)
  obtain t' where ran: "run catalog_page busy_session = Some t'"
    using busy_session_lines by (cases "run catalog_page busy_session") simp_all
  note T = quote_lines_leave_products[of three_of_a 0 0 "SetQuantity 5" s'
      catalog_page busy_session t']
  from T upd have A: "products s' = products three_of_a" by blast
  from T ran have "products t' = products catalog_page" by blast
  then have B: "products t' = [product_a, product_b]"
    by (simp add: catalog_page_def)
  then have C: "map stock_quantity (products t') = [7, 40]"
    by (simp add: product_a_def product_b_def)
  from upd ran A B C show ?thesis by simp
qed

lemma step_distinct:
  assumes "distinct (map product_id (quoteLines s))" and "\<not> is_edit ev"
  shows "\<exists>s'. step s ev = Some s' \<and> distinct (map product_id (quoteLines s'))"
  using assms
  by (cases ev) (simp_all add: handleAddProduct_distinct handleRemoveProduct_distinct)

lemma run_distinct:
  assumes "distinct (map product_id (quoteLines s))" and "\<forall>ev\<in>set evs. \<not> is_edit ev"
  shows "\<exists>s'. run s evs = Some s' \<and> distinct (map product_id (quoteLines s'))"
  using assms
proof (induction evs arbitrary: s)
  case Nil
  then show ?case by simp
next
  case (Cons ev evs)
  from Cons.prems obtain s1 where st: "step s ev = Some s1"
    and d1: "distinct (map product_id (quoteLines s1))"
    using step_distinct[of s ev] by auto
  from Cons.prems have "\<forall>e\<in>set evs. \<not> is_edit e" by simp
  from Cons.IH[OF d1 this] st show ?case by simp
qed

lemma handleAddProduct_present:
  assumes sel: "selectedProduct t = Some p"
    and dist: "distinct (map product_id (quoteLines t))"
    and lt: "i < length (quoteLines t)"
    and at: "product_id (quoteLines t ! i) = p_id p"
  shows "quoteLines (handleAddProduct t) =
           (quoteLines t)[i := updateExisting (quoteLines t ! i)
                                 (productQuantity t) (productDiscount t)]"
proof -
  have k: "findIndex (\<lambda>line. product_id line = p_id p) (quoteLines t) = int i"
    using findIndex_distinct[OF dist lt at] .
  then have "0 \<le> findIndex (\<lambda>line. product_id line = p_id p) (quoteLines t)" by simp
  from handleAddProduct_lines_found[OF sel this] k show ?thesis by simp
qed

text \<open>
  C9. From an empty line list, any sequence of adds and removes (with the inputs set
  in between) leaves every \<^verbatim>\<open>product_id\<close> on at most one line. Adding a product
  that already has a line creates no second line: the list keeps its length and its
  other lines, and the product's line has its quantity increased by the entered
  quantity, its discount replaced by the entered discount, and its subtotal
  recomputed from the new quantity and the new discount.
\<close>

theorem one_line_per_product:
  "(quoteLines s = [] \<longrightarrow> (\<forall>ev\<in>set evs. \<not> is_edit ev) \<longrightarrow>
      (\<exists>s'. run s evs = Some s' \<and> distinct (map product_id (quoteLines s'))))
   \<and> (selectedProduct t = Some p \<longrightarrow> distinct (map product_id (quoteLines t)) \<longrightarrow>
       i < length (quoteLines t) \<longrightarrow> product_id (quoteLines t ! i) = p_id p \<longrightarrow>
         length (quoteLines (handleAddProduct t)) = length (quoteLines t)
         \<and> (\<forall>j<length (quoteLines t). j \<noteq> i \<longrightarrow>
               quoteLines (handleAddProduct t) ! j = quoteLines t ! j)
         \<and> product_id (quoteLines (handleAddProduct t) ! i) = p_id p
         \<and> unit_price (quoteLines (handleAddProduct t) ! i) = unit_price (quoteLines t ! i)
         \<and> quantity (quoteLines (handleAddProduct t) ! i)
             = quantity (quoteLines t ! i) + productQuantity t
         \<and> discount (quoteLines (handleAddProduct t) ! i) = productDiscount t
         \<and> subtotal (quoteLines (handleAddProduct t) ! i)
             = (quantity (quoteLines t ! i) + productQuantity t) * unit_price (quoteLines t ! i)
                 * (1 - productDiscount t / 100))"
proof (intro conjI impI)
  assume "quoteLines s = []" and "\<forall>ev\<in>set evs. \<not> is_edit ev"
  then show "\<exists>s'. run s evs = Some s' \<and> distinct (map product_id (quoteLines s'))"
    using run_distinct[of s evs] by simp
next
  assume sel: "selectedProduct t = Some p"
    and dist: "distinct (map product_id (quoteLines t))"
    and lt: "i < length (quoteLines t)"
    and at: "product_id (quoteLines t ! i) = p_id p"
  note L = handleAddProduct_present[OF sel dist lt at]
  show "length (quoteLines (handleAddProduct t)) = length (quoteLines t)"
    by (simp add: L)
  show "\<forall>j<length (quoteLines t). j \<noteq> i \<longrightarrow>
          quoteLines (handleAddProduct t) ! j = quoteLines t ! j"
    by (simp add: L)
  show "product_id (quoteLines (handleAddProduct t) ! i) = p_id p"
    using lt at by (simp add: L updateExisting_id)
  show "unit_price (quoteLines (handleAddProduct t) ! i) = unit_price (quoteLines t ! i)"
    using lt by (simp add: L updateExisting_def Let_def)
  show "quantity (quoteLines (handleAddProduct t) ! i)
          = quantity (quoteLines t ! i) + productQuantity t"
    using lt by (simp add: L updateExisting_def Let_def)
  show "discount (quoteLines (handleAddProduct t) ! i) = productDiscount t"
    using lt by (simp add: L updateExisting_def Let_def)
  show "subtotal (quoteLines (handleAddProduct t) ! i)
          = (quantity (quoteLines t ! i) + productQuantity t) * unit_price (quoteLines t ! i)
              * (1 - productDiscount t / 100)"
    using lt by (simp add: L updateExisting_def Let_def js_or_zero)
qed

theorem one_line_per_product_witness:
  "quoteLines blank_page = []
   \<and> \<not> list_ex is_edit add_remove_session
   \<and> (\<exists>s'. run blank_page add_remove_session = Some s'
          \<and> distinct (map product_id (quoteLines s')))
   \<and> selectedProduct again_a = Some product_a
   \<and> distinct (map product_id (quoteLines again_a))
   \<and> product_id (quoteLines again_a ! 0) = p_id product_a
   \<and> quoteLines (handleAddProduct again_a) =
        [\<lparr> product_id = 1, product_name = Some ''A'', quantity = 5, unit_price = 100000,
           discount = 5, subtotal = 475000 \<rparr>]"
proof -
  have h1: "quoteLines blank_page = []" by (simp add: blank_page_def)
  have h2: "\<forall>ev\<in>set add_remove_session. \<not> is_edit ev"
    by (simp add: add_remove_session_def)
  have h2': "\<not> list_ex is_edit add_remove_session"
    by (simp add: add_remove_session_def)
  have lines: "quoteLines again_a = quoteLines three_of_a" by (simp add: again_a_def)
  have g1: "selectedProduct again_a = Some product_a" by (simp add: again_a_def)
  have g2: "distinct (map product_id (quoteLines again_a))"
    by (simp add: lines three_of_a_lines)
  have g3: "0 < length (quoteLines again_a)" by (simp add: lines three_of_a_lines)
  have g4: "product_id (quoteLines again_a ! 0) = p_id product_a"
    by (simp add: lines three_of_a_lines product_a_def)
  note T = one_line_per_product[of blank_page add_remove_session again_a product_a 0]
  from T h1 h2
  have A: "\<exists>s'. run blank_page add_remove_session = Some s'
             \<and> distinct (map product_id (quoteLines s'))"
    by blast
  from T g1 g2 g3 g4
  have len: "length (quoteLines (handleAddProduct again_a)) = length (quoteLines again_a)"
    and q: "quantity (quoteLines (handleAddProduct again_a) ! 0)
              = quantity (quoteLines again_a ! 0) + productQuantity again_a"
    by blast+
  have B: "quoteLines (handleAddProduct again_a) =
        [\<lparr> product_id = 1, product_name = Some ''A'', quantity = 5, unit_price = 100000,
           discount = 5, subtotal = 475000 \<rparr>]"
    by (simp add: handleAddProduct_def again_a_def three_of_a_lines product_a_def
        updateExisting_def js_or_def Let_def)
  from h1 h2' A g1 g2 g4 B show ?thesis by simp
qed

section \<open>Expiry classification\<close>

lemma MS_PER_DAY_pos: "0 < MS_PER_DAY"
  by (simp add: MS_PER_DAY_def)

lemma ceil_days_le: "ceil_days ms \<le> n \<longleftrightarrow> ms \<le> n * MS_PER_DAY"
proof -
  have "ceil_days ms \<le> n \<longleftrightarrow> (of_int ms :: rat) / of_int MS_PER_DAY \<le> of_int n"
    by (simp add: ceil_days_def ceiling_le_iff)
  also have "\<dots> \<longleftrightarrow> (of_int ms :: rat) \<le> of_int n * of_int MS_PER_DAY"
    using MS_PER_DAY_pos by (simp add: pos_divide_le_eq)
  also have "\<dots> \<longleftrightarrow> (of_int ms :: rat) \<le> of_int (n * MS_PER_DAY)"
    by simp
  also have "\<dots> \<longleftrightarrow> ms \<le> n * MS_PER_DAY"
    by (simp only: of_int_le_iff)
  finally show ?thesis .
qed

lemma ceil_days_ge: "n \<le> ceil_days ms \<longleftrightarrow> (n - 1) * MS_PER_DAY < ms"
proof -
  have "n \<le> ceil_days ms \<longleftrightarrow> \<not> ceil_days ms \<le> n - 1" by arith
  also have "\<dots> \<longleftrightarrow> \<not> ms \<le> (n - 1) * MS_PER_DAY"
    by (simp only: ceil_days_le)
  finally show ?thesis by arith
qed

lemma ceil_days_whole: "ceil_days (k * MS_PER_DAY) = k"
proof -
  have "ceil_days (k * MS_PER_DAY) \<le> k" by (simp add: ceil_days_le)
  moreover have "k \<le> ceil_days (k * MS_PER_DAY)"
    using MS_PER_DAY_pos by (simp add: ceil_days_ge)
  ultimately show ?thesis by arith
qed

lemma midnights_apart:
  "setHours0 tz t - setHours0 tz now = (local_day tz t - local_day tz now) * MS_PER_DAY"
  by (simp add: setHours0_def local_day_def algebra_simps)

lemma isRegimeExpired_days:
  "isRegimeExpired tz now (DateAt t) \<longleftrightarrow> local_day tz t < local_day tz now"
proof -
  have "setHours0 tz t < setHours0 tz now \<longleftrightarrow> setHours0 tz t - setHours0 tz now < 0"
    by arith
  also have "\<dots> \<longleftrightarrow> (local_day tz t - local_day tz now) * MS_PER_DAY < 0"
    by (simp only: midnights_apart)
  also have "\<dots> \<longleftrightarrow> local_day tz t - local_day tz now < 0"
    using MS_PER_DAY_pos by (simp add: mult_less_0_iff)
  finally show ?thesis by (simp add: isRegimeExpired_def Let_def)
qed

lemma isRegimeExpiringSoon_days:
  "isRegimeExpiringSoon tz now (DateAt t) \<longleftrightarrow>
     0 \<le> local_day tz t - local_day tz now \<and> local_day tz t - local_day tz now \<le> 5"
  by (simp add: isRegimeExpiringSoon_def Let_def midnights_apart ceil_days_whole) arith

lemma isExpiringSoon_window:
  "isExpiringSoon now (DateAt t) \<longleftrightarrow> - MS_PER_DAY < t - now \<and> t - now \<le> 30 * MS_PER_DAY"
  by (simp add: isExpiringSoon_def Let_def ceil_days_le ceil_days_ge) arith

lemma local_day_bounds:
  "local_day tz t * MS_PER_DAY \<le> t + tz \<and> t + tz < (local_day tz t + 1) * MS_PER_DAY"
proof -
  define q where "q = (t + tz) div MS_PER_DAY"
  define r where "r = (t + tz) mod MS_PER_DAY"
  have "q * MS_PER_DAY + r = t + tz"
    unfolding q_def r_def by (rule div_mult_mod_eq)
  moreover have "0 \<le> r" and "r < MS_PER_DAY"
    unfolding r_def using MS_PER_DAY_pos by simp_all
  moreover have "(q + 1) * MS_PER_DAY = q * MS_PER_DAY + MS_PER_DAY"
    by (simp add: algebra_simps)
  ultimately have "q * MS_PER_DAY \<le> t + tz \<and> t + tz < (q + 1) * MS_PER_DAY"
    by arith
  then show ?thesis by (simp add: local_day_def q_def)
qed


text \<open>
  A string with a date only, such as 2025-01-10, is parsed as midnight UTC of that
  day. West of Greenwich this instant lies in the previous local day, and the
  customer list, which resets to local midnight, takes the regime to expire a day
  before the date written: on that date it is already expired.
\<close>

lemma utc_midnight_local_day:
  assumes "- MS_PER_DAY \<le> tz" and "tz < 0"
  shows "local_day tz (k * MS_PER_DAY) = k - 1"
proof -
  have "k * MS_PER_DAY + tz = MS_PER_DAY * (k - 1) + (MS_PER_DAY + tz)"
    by (simp add: algebra_simps)
  moreover from assms have "0 \<le> MS_PER_DAY + tz" and "MS_PER_DAY + tz < MS_PER_DAY"
    by simp_all
  ultimately have "(k * MS_PER_DAY + tz) div MS_PER_DAY = k - 1"
    by (rule int_div_pos_eq)
  then show ?thesis by (simp add: local_day_def)
qed

lemma regime_expired_on_written_date:
  assumes "- MS_PER_DAY \<le> tz" and "tz < 0" and "local_day tz now = k"
  shows "isRegimeExpired tz now (DateAt (k * MS_PER_DAY))"
  using assms by (simp add: isRegimeExpired_days utc_midnight_local_day)




lemma isExpiringSoon_three_days:
  assumes "local_day tz t = local_day tz now + 3"
  shows "isExpiringSoon now (DateAt t)"
proof -
  let ?d = "local_day tz now"
  from local_day_bounds[of tz now]
  have n1: "?d * MS_PER_DAY \<le> now + tz" and n2: "now + tz < (?d + 1) * MS_PER_DAY"
    by simp_all
  from local_day_bounds[of tz t]
  have t1: "(?d + 3) * MS_PER_DAY \<le> t + tz" and t2: "t + tz < (?d + 3 + 1) * MS_PER_DAY"
    unfolding assms by blast+
  from n2 t1 have "2 * MS_PER_DAY < t - now" by (simp add: algebra_simps)
  moreover from n1 t2 have "t - now < 4 * MS_PER_DAY" by (simp add: algebra_simps)
  ultimately show ?thesis
    using MS_PER_DAY_pos by (simp add: isExpiringSoon_window)
qed

text \<open>
  C6. For an expiry whose calendar day is today plus 3 days: in the customer view
  \<^verbatim>\<open>isRegimeExpiringSoon\<close> is true and \<^verbatim>\<open>isRegimeExpired\<close> is false; in the
  product view \<^verbatim>\<open>isExpiringSoon\<close> is true as well, since 3 days lie within its
  window of 30 days.
\<close>

theorem three_days_ahead:
  assumes ahead: "local_day tz t = local_day tz now + 3"
  shows "isRegimeExpiringSoon tz now (DateAt t)
         \<and> \<not> isRegimeExpired tz now (DateAt t)
         \<and> isExpiringSoon now (DateAt t)"
proof (intro conjI)
  from ahead have diff: "local_day tz t - local_day tz now = 3" by simp
  show "isRegimeExpiringSoon tz now (DateAt t)"
    unfolding isRegimeExpiringSoon_days diff by simp
  show "\<not> isRegimeExpired tz now (DateAt t)"
    unfolding isRegimeExpired_days using ahead by simp
  show "isExpiringSoon now (DateAt t)"
    using ahead by (rule isExpiringSoon_three_days)
qed

text \<open>
  In Asuncion (UTC-3), at 15:00 UTC of day 20098, with an expiry three days later at
  the same time of day.
\<close>

theorem three_days_ahead_witness:
  "local_day (- 10800000) (20101 * MS_PER_DAY + 54000000)
     = local_day (- 10800000) (20098 * MS_PER_DAY + 54000000) + 3
   \<and> isRegimeExpiringSoon (- 10800000) (20098 * MS_PER_DAY + 54000000)
        (DateAt (20101 * MS_PER_DAY + 54000000))
   \<and> \<not> isRegimeExpired (- 10800000) (20098 * MS_PER_DAY + 54000000)
        (DateAt (20101 * MS_PER_DAY + 54000000))
   \<and> isExpiringSoon (20098 * MS_PER_DAY + 54000000)
        (DateAt (20101 * MS_PER_DAY + 54000000))"
proof -
  have h: "local_day (- 10800000) (20101 * MS_PER_DAY + 54000000)
             = local_day (- 10800000) (20098 * MS_PER_DAY + 54000000) + 3"
    by (simp add: local_day_def MS_PER_DAY_def)
  from three_days_ahead[OF h] h show ?thesis by simp
qed

text \<open>
  The product view three days before an expiry, once with the expiry at UTC midnight
  of the third day and once exactly 72 hours ahead: \<^verbatim>\<open>isExpiringSoon\<close> is true.
\<close>

theorem product_three_days_counterexample:
  "isExpiringSoon (20098 * MS_PER_DAY + 43200000) (DateAt (20101 * MS_PER_DAY))
   \<and> isExpiringSoon (20098 * MS_PER_DAY + 43200000) (DateAt (20101 * MS_PER_DAY + 43200000))
   \<and> ceil_days (20101 * MS_PER_DAY - (20098 * MS_PER_DAY + 43200000)) = 3"
proof -
  have "ceil_days (20101 * MS_PER_DAY - (20098 * MS_PER_DAY + 43200000)) \<le> 3"
    unfolding ceil_days_le by (simp add: MS_PER_DAY_def)
  moreover have "3 \<le> ceil_days (20101 * MS_PER_DAY - (20098 * MS_PER_DAY + 43200000))"
    unfolding ceil_days_ge by (simp add: MS_PER_DAY_def)
  ultimately have "ceil_days (20101 * MS_PER_DAY - (20098 * MS_PER_DAY + 43200000)) = 3"
    by arith
  moreover have "isExpiringSoon (20098 * MS_PER_DAY + 43200000) (DateAt (20101 * MS_PER_DAY))"
    unfolding isExpiringSoon_window by (simp add: MS_PER_DAY_def)
  moreover have "isExpiringSoon (20098 * MS_PER_DAY + 43200000)
                   (DateAt (20101 * MS_PER_DAY + 43200000))"
    unfolding isExpiringSoon_window by (simp add: MS_PER_DAY_def)
  ultimately show ?thesis by simp
qed

section \<open>Customer form: the document and the expiry date\<close>

lemma handleFileSelect_accept:
  "acceptable f \<Longrightarrow> handleFileSelect (Some f) s = s\<lparr>selectedFile := Some f, fileError := ''''\<rparr>"
  by (simp add: handleFileSelect_def acceptable_def)

lemma handleFileSelect_reject:
  "\<not> acceptable f \<Longrightarrow>
     fileError (handleFileSelect (Some f) s) \<noteq> ''''
     \<and> handleFileSelect (Some f) s = s\<lparr>fileError := fileError (handleFileSelect (Some f) s)\<rparr>"
  by (auto simp: handleFileSelect_def acceptable_def)

lemma handleFileSelect_valid:
  "selection_valid s \<Longrightarrow> selection_valid (handleFileSelect picked s)"
  by (cases picked)
    (auto simp: handleFileSelect_def selection_valid_def acceptable_def split: option.splits)

lemma uploadStep_calls:
  "UploadTourismPdf cid g \<in> set (snd (uploadStep srv s customer s0)) \<Longrightarrow> selectedFile s = Some g"
  by (auto simp: uploadStep_def Let_def split: option.splits if_splits)

lemma submitCustomer_uploads:
  assumes "UploadTourismPdf cid g \<in> set (snd (submitCustomer tz now srv s))"
  shows "selectedFile s = Some g"
proof -
  from assms have "\<exists>customer.
    UploadTourismPdf cid g
      \<in> set (snd (uploadStep srv s customer (s\<lparr>submitting := True, c_error := ''''\<rparr>)))"
    by (auto simp: submitCustomer_def Let_def split: if_splits option.splits)
  then show ?thesis by (auto dest: uploadStep_calls)
qed

text \<open>
  C8. \<^verbatim>\<open>handleFileSelect\<close> accepts a chosen file, recording it as the selected file
  with the file error cleared, exactly when its type is \<^verbatim>\<open>application/pdf\<close> and
  its size is at most 10 * 1024 * 1024 bytes. A file that fails a check sets a file
  error and leaves the selected file as it was. The selected file therefore always
  obeys the rule, \<^verbatim>\<open>handleSubmit\<close> uploads nothing but the selected file, and so no
  upload request carries a rejected file.
\<close>

theorem file_picker_validates:
  "((selectedFile (handleFileSelect (Some f) s) = Some f
       \<and> fileError (handleFileSelect (Some f) s) = []) \<longleftrightarrow> acceptable f)
   \<and> (\<not> acceptable f \<longrightarrow>
         fileError (handleFileSelect (Some f) s) \<noteq> []
         \<and> selectedFile (handleFileSelect (Some f) s) = selectedFile s)
   \<and> (selection_valid s \<longrightarrow> selection_valid (handleFileSelect picked s))
   \<and> (selection_valid s \<longrightarrow> \<not> acceptable f \<longrightarrow>
         UploadTourismPdf cid f
           \<notin> set (snd (submitCustomer tz now srv (handleFileSelect (Some f) s))))
   \<and> (selection_valid s \<longrightarrow>
         UploadTourismPdf cid g \<in> set (snd (submitCustomer tz now srv s)) \<longrightarrow> acceptable g)"
proof (intro conjI impI)
  show "(selectedFile (handleFileSelect (Some f) s) = Some f
           \<and> fileError (handleFileSelect (Some f) s) = []) \<longleftrightarrow> acceptable f"
  proof (cases "acceptable f")
    case True
    then show ?thesis by (simp add: handleFileSelect_accept)
  next
    case False
    with handleFileSelect_reject[of f s] show ?thesis by simp
  qed
next
  assume rej: "\<not> acceptable f"
  from handleFileSelect_reject[OF rej, of s]
  show "fileError (handleFileSelect (Some f) s) \<noteq> []" by simp
  from handleFileSelect_reject[OF rej, of s]
  have "selectedFile (handleFileSelect (Some f) s)
          = selectedFile (s\<lparr>fileError := fileError (handleFileSelect (Some f) s)\<rparr>)"
    by simp
  then show "selectedFile (handleFileSelect (Some f) s) = selectedFile s" by simp
next
  assume "selection_valid s"
  then show "selection_valid (handleFileSelect picked s)" by (rule handleFileSelect_valid)
next
  assume v: "selection_valid s" and rej: "\<not> acceptable f"
  show "UploadTourismPdf cid f
          \<notin> set (snd (submitCustomer tz now srv (handleFileSelect (Some f) s)))"
  proof
    assume "UploadTourismPdf cid f
              \<in> set (snd (submitCustomer tz now srv (handleFileSelect (Some f) s)))"
    then have "selectedFile (handleFileSelect (Some f) s) = Some f"
      by (rule submitCustomer_uploads)
    with handleFileSelect_valid[OF v, of "Some f"] have "acceptable f"
      by (simp add: selection_valid_def)
    with rej show False by simp
  qed
next
  assume v: "selection_valid s"
    and "UploadTourismPdf cid g \<in> set (snd (submitCustomer tz now srv s))"
  then have "selectedFile s = Some g" by (simp add: submitCustomer_uploads)
  with v show "acceptable g" by (simp add: selection_valid_def)
qed

lemma good_then_big:
  "handleFileSelect (Some big_pdf) (handleFileSelect (Some good_pdf) dated_page)
     = dated_page\<lparr>selectedFile := Some good_pdf,
                   fileError := ''El archivo es demasiado grande. Maximo permitido: 10MB''\<rparr>"
  by (simp add: handleFileSelect_def good_pdf_def big_pdf_def)

lemma good_then_big_calls:
  "snd (submitCustomer (- 10800000) (20098 * MS_PER_DAY + 54000000) saving_server
          (handleFileSelect (Some big_pdf) (handleFileSelect (Some good_pdf) dated_page)))
     = [CreateCustomer (formData dated_page), UploadTourismPdf 7 good_pdf, ListCustomers]"
  by (simp add: good_then_big)
    (simp add: submitCustomer_def uploadStep_def expiry_not_future_def setHours0_def
      MS_PER_DAY_def dated_page_def new_customer_page_def saving_server_def Let_def)

theorem file_picker_validates_witness:
  "acceptable good_pdf \<and> \<not> acceptable big_pdf
   \<and> selection_valid dated_page
   \<and> selectedFile (handleFileSelect (Some good_pdf) dated_page) = Some good_pdf
   \<and> fileError (handleFileSelect (Some good_pdf) dated_page) = []
   \<and> selection_valid (handleFileSelect (Some good_pdf) dated_page)
   \<and> fileError (handleFileSelect (Some big_pdf) (handleFileSelect (Some good_pdf) dated_page))
        \<noteq> []
   \<and> selectedFile (handleFileSelect (Some big_pdf) (handleFileSelect (Some good_pdf) dated_page))
        = Some good_pdf
   \<and> UploadTourismPdf 7 big_pdf
        \<notin> set (snd (submitCustomer (- 10800000) (20098 * MS_PER_DAY + 54000000) saving_server
             (handleFileSelect (Some big_pdf) (handleFileSelect (Some good_pdf) dated_page))))
   \<and> UploadTourismPdf 7 good_pdf
        \<in> set (snd (submitCustomer (- 10800000) (20098 * MS_PER_DAY + 54000000) saving_server
             (handleFileSelect (Some big_pdf) (handleFileSelect (Some good_pdf) dated_page))))"
proof -
  let ?s1 = "handleFileSelect (Some good_pdf) dated_page"
  have ok: "acceptable good_pdf" by (simp add: acceptable_def good_pdf_def)
  have bad: "\<not> acceptable big_pdf" by (simp add: acceptable_def big_pdf_def)
  have v0: "selection_valid dated_page"
    by (simp add: selection_valid_def dated_page_def new_customer_page_def)
  note T0 = file_picker_validates[of good_pdf dated_page "Some good_pdf"]
  note T1 = file_picker_validates[of big_pdf ?s1 "Some big_pdf" 7
      "- 10800000" "20098 * MS_PER_DAY + 54000000" saving_server]
  from T0 ok have a: "selectedFile ?s1 = Some good_pdf \<and> fileError ?s1 = []" by blast
  from T0 v0 have v1: "selection_valid ?s1" by blast
  from T1 bad have b: "fileError (handleFileSelect (Some big_pdf) ?s1) \<noteq> []
      \<and> selectedFile (handleFileSelect (Some big_pdf) ?s1) = selectedFile ?s1"
    by blast
  from T1 v1 bad have c: "UploadTourismPdf 7 big_pdf
        \<notin> set (snd (submitCustomer (- 10800000) (20098 * MS_PER_DAY + 54000000) saving_server
             (handleFileSelect (Some big_pdf) ?s1)))"
    by blast
  have d: "UploadTourismPdf 7 good_pdf
        \<in> set (snd (submitCustomer (- 10800000) (20098 * MS_PER_DAY + 54000000) saving_server
             (handleFileSelect (Some big_pdf) ?s1)))"
    by (simp add: good_then_big_calls)
  from ok bad v0 a v1 b c d show ?thesis by simp
qed



section \<open>Forced logout, and the balance of a deposit\<close>

text \<open>
  C7. Every error is rejected again to the caller. When, and only when, the error's
  response has status 401, the interceptor clears the in-memory token, removes the
  stored token from local storage (the other keys stay) and sets the location to
  \<^verbatim>\<open>/login\<close>; for any other error, and for a response, the state stays as it was.
\<close>

theorem unauthorized_logs_out:
  "snd (onResponseError error s) = Rejected error
   \<and> (map_option http_status (err_response error) = Some 401 \<longrightarrow>
        token (fst (onResponseError error s)) = None
        \<and> localStorage (fst (onResponseError error s)) ''token'' = None
        \<and> (\<forall>k. k \<noteq> ''token'' \<longrightarrow>
              localStorage (fst (onResponseError error s)) k = localStorage s k)
        \<and> location_href (fst (onResponseError error s)) = ''/login'')
   \<and> (map_option http_status (err_response error) \<noteq> Some 401 \<longrightarrow>
        fst (onResponseError error s) = s)
   \<and> onResponse response s = (s, Resolved response)"
proof (intro conjI impI allI)
  show "snd (onResponseError error s) = Rejected error"
    by (simp add: onResponseError_def Let_def)
  show "onResponse response s = (s, Resolved response)"
    by (simp add: onResponse_def)
next
  assume other: "map_option http_status (err_response error) \<noteq> Some 401"
  show "fst (onResponseError error s) = s"
    unfolding onResponseError_def Let_def using other by (simp only: if_False fst_conv)
next
  assume unauthorized: "map_option http_status (err_response error) = Some 401"
  then have out: "fst (onResponseError error s)
      = (setToken None s)\<lparr>localStorage := (localStorage s)(''token'' := None),
                              location_href := ''/login''\<rparr>"
    by (simp add: onResponseError_def Let_def)
  show "token (fst (onResponseError error s)) = None"
    by (simp add: out setToken_def)
  show "localStorage (fst (onResponseError error s)) ''token'' = None"
    by (simp add: out)
  show "location_href (fst (onResponseError error s)) = ''/login''"
    by (simp add: out)
  fix k :: string
  assume "k \<noteq> ''token''"
  then show "localStorage (fst (onResponseError error s)) k = localStorage s k"
    by (simp add: out)
qed

theorem unauthorized_logs_out_witness:
  "map_option http_status (err_response error_401) = Some 401
   \<and> snd (onResponseError error_401 logged_in) = Rejected error_401
   \<and> token (fst (onResponseError error_401 logged_in)) = None
   \<and> localStorage (fst (onResponseError error_401 logged_in)) ''token'' = None
   \<and> localStorage (fst (onResponseError error_401 logged_in)) ''theme'' = Some ''dark''
   \<and> location_href (fst (onResponseError error_401 logged_in)) = ''/login''
   \<and> map_option http_status (err_response error_500) \<noteq> Some 401
   \<and> fst (onResponseError error_500 logged_in) = logged_in
   \<and> snd (onResponseError error_500 logged_in) = Rejected error_500
   \<and> map_option http_status (err_response network_error) \<noteq> Some 401
   \<and> fst (onResponseError network_error logged_in) = logged_in
   \<and> snd (onResponseError network_error logged_in) = Rejected network_error"
proof -
  have h1: "map_option http_status (err_response error_401) = Some 401"
    by (simp add: error_401_def)
  have h2: "map_option http_status (err_response error_500) \<noteq> Some 401"
    by (simp add: error_500_def)
  have h3: "map_option http_status (err_response network_error) \<noteq> Some 401"
    by (simp add: network_error_def)
  note A = unauthorized_logs_out[of error_401 logged_in]
  note B = unauthorized_logs_out[of error_500 logged_in]
  note C = unauthorized_logs_out[of network_error logged_in]
  from A h1 have a: "snd (onResponseError error_401 logged_in) = Rejected error_401
    \<and> token (fst (onResponseError error_401 logged_in)) = None
    \<and> localStorage (fst (onResponseError error_401 logged_in)) ''token'' = None
    \<and> localStorage (fst (onResponseError error_401 logged_in)) ''theme''
        = localStorage logged_in ''theme''
    \<and> location_href (fst (onResponseError error_401 logged_in)) = ''/login''"
    by simp
  have th: "localStorage logged_in ''theme'' = Some ''dark''"
    by (simp add: logged_in_def)
  from B h2 have b: "fst (onResponseError error_500 logged_in) = logged_in
    \<and> snd (onResponseError error_500 logged_in) = Rejected error_500"
    by simp
  from C h3 have c: "fst (onResponseError network_error logged_in) = logged_in
    \<and> snd (onResponseError network_error logged_in) = Rejected network_error"
    by simp
  from h1 h2 h3 a th b c show ?thesis by simp
qed

lemma ledger_step_ok:
  assumes "deposit_ok d" and "0 \<le> op_amount x" and "ledger_step d x = Some d'"
  shows "deposit_ok d' \<and> amount d' = amount d"
  using assms
  by (cases x)
    (auto simp: deposit_ok_def apply_to_invoice_def refund_deposit_def split: if_splits)

lemma ledger_run_ok:
  assumes "deposit_ok d" and "\<forall>x\<in>set xs. 0 \<le> op_amount x" and "ledger_run d xs = Some d'"
  shows "deposit_ok d' \<and> amount d' = amount d"
  using assms
proof (induction xs arbitrary: d)
  case Nil
  then show ?case by simp
next
  case (Cons x xs)
  from Cons.prems obtain d1 where st: "ledger_step d x = Some d1"
    and rest: "ledger_run d1 xs = Some d'"
    by (auto split: option.splits)
  from Cons.prems have nn: "0 \<le> op_amount x" and nns: "\<forall>y\<in>set xs. 0 \<le> op_amount y"
    by simp_all
  from ledger_step_ok[OF Cons.prems(1) nn st]
  have ok1: "deposit_ok d1" and am1: "amount d1 = amount d" by simp_all
  from Cons.IH[OF ok1 nns rest] am1 show ?case by simp
qed

text \<open>
  C4. For a deposit with \<open>0 \<le> available_amount \<le> amount\<close>, after any sequence of
  apply-to-invoice and refund operations that the server accepts (each amount at most
  the available amount of the moment) and whose amounts are not negative, the
  deposit still has \<open>0 \<le> available_amount \<le> amount\<close>, and its original amount is
  unchanged.
\<close>

theorem deposit_balance_bounded:
  "deposit_ok d \<Longrightarrow> \<forall>x\<in>set xs. 0 \<le> op_amount x \<Longrightarrow> ledger_run d xs = Some d' \<Longrightarrow>
     0 \<le> available_amount d' \<and> available_amount d' \<le> amount d' \<and> amount d' = amount d"
proof -
  assume "deposit_ok d" and "\<forall>x\<in>set xs. 0 \<le> op_amount x" and "ledger_run d xs = Some d'"
  then have "deposit_ok d' \<and> amount d' = amount d"
    by (rule ledger_run_ok)
  then show ?thesis by (simp add: deposit_ok_def)
qed

lemma apply_then_refund:
  "ledger_run fresh_deposit [ApplyOp open_invoice 200000, RefundOp 300000 ''devolucion'']
     = Some (fresh_deposit\<lparr>available_amount := 0, dep_status := ''REFUNDED''\<rparr>)"
  by (simp add: fresh_deposit_def apply_to_invoice_def refund_deposit_def)

theorem deposit_balance_bounded_witness:
  "deposit_ok fresh_deposit
   \<and> list_all (\<lambda>x. 0 \<le> op_amount x)
        [ApplyOp open_invoice 200000, RefundOp 300000 ''devolucion'']
   \<and> ledger_run fresh_deposit [ApplyOp open_invoice 200000, RefundOp 300000 ''devolucion'']
        = Some (fresh_deposit\<lparr>available_amount := 0, dep_status := ''REFUNDED''\<rparr>)
   \<and> 0 \<le> available_amount (fresh_deposit\<lparr>available_amount := 0, dep_status := ''REFUNDED''\<rparr>)
   \<and> available_amount (fresh_deposit\<lparr>available_amount := 0, dep_status := ''REFUNDED''\<rparr>)
        \<le> amount (fresh_deposit\<lparr>available_amount := 0, dep_status := ''REFUNDED''\<rparr>)"
proof -
  have ok: "deposit_ok fresh_deposit"
    by (simp add: deposit_ok_def fresh_deposit_def)
  have nn: "\<forall>x\<in>set [ApplyOp open_invoice 200000, RefundOp 300000 ''devolucion''].
              0 \<le> op_amount x"
    by simp
  from deposit_balance_bounded[OF ok nn apply_then_refund] ok apply_then_refund
  show ?thesis by simp
qed

text \<open>
  A refund of -1 satisfies \<open>amount \<le> available_amount\<close>; the dialog offers it (the
  button is enabled, the request is the one sent), and after it the deposit has more
  available than its amount.
\<close>

theorem negative_refund_counterexample:
  "(- 1 :: rat) \<le> available_amount fresh_deposit
   \<and> deposit_ok fresh_deposit
   \<and> \<not> actionDisabled negative_refund
   \<and> handleRefundDeposit negative_refund = Some (RefundDeposit 1 (- 1) ''ajuste'')
   \<and> ledger_run fresh_deposit [RefundOp (- 1) ''ajuste'']
       = Some (fresh_deposit\<lparr>available_amount := 500001\<rparr>)
   \<and> \<not> available_amount (fresh_deposit\<lparr>available_amount := 500001\<rparr>)
         \<le> amount (fresh_deposit\<lparr>available_amount := 500001\<rparr>)"
  by (simp add: fresh_deposit_def deposit_ok_def negative_refund_def actionDisabled_def
      handleRefundDeposit_def handleOpenActionDialog_def refund_deposit_def)

end
